theory Spec2Isabelle
  imports Complex_Main "HOL-Library.Word"
begin

section \<open>JavaScript values used by the screens\<close>

text \<open>
  A JavaScript string is a sequence of 16-bit code units.  Literals of the source are
  written \<open>js ''...''\<close>; the euro sign of the currency tables is the code unit 0x20AC.
\<close>

type_synonym jsstring = "16 word list"

definition js :: "string \<Rightarrow> jsstring" where
  "js s = map (\<lambda>c. of_nat (of_char c)) s"

definition euro_sign :: jsstring where
  "euro_sign = [0x20AC]"

text \<open>
  \<open>String.prototype.trim\<close> strips WhiteSpace and LineTerminator code units from both
  ends (ECMAScript: TAB, LF, VT, FF, CR, SP, NBSP, the Unicode space separators,
  LS, PS and the byte order mark).
\<close>

definition js_whitespace :: "16 word \<Rightarrow> bool" where
  "js_whitespace c \<longleftrightarrow>
     c \<in> set [0x0009, 0x000A, 0x000B, 0x000C, 0x000D, 0x0020, 0x00A0, 0x1680,
              0x2000, 0x2001, 0x2002, 0x2003, 0x2004, 0x2005, 0x2006, 0x2007,
              0x2008, 0x2009, 0x200A, 0x2028, 0x2029, 0x202F, 0x205F, 0x3000, 0xFEFF]"

definition trim :: "jsstring \<Rightarrow> jsstring" where
  "trim s = rev (dropWhile js_whitespace (rev (dropWhile js_whitespace s)))"

text \<open>\<open>String.prototype.includes\<close>: the argument occurs as a contiguous run.\<close>

fun includes_str :: "jsstring \<Rightarrow> jsstring \<Rightarrow> bool" where
  "includes_str [] q = (q = [])"
| "includes_str (x # xs) q = (take (length q) (x # xs) = q \<or> includes_str xs q)"

text \<open>The decimal digits of a natural number, most significant first.\<close>

function decimal :: "nat \<Rightarrow> jsstring" where
  "decimal n = (if n < 10 then [of_nat (48 + n)]
                else decimal (n div 10) @ [of_nat (48 + n mod 10)])"
  by pat_completeness auto
termination
  by (relation "measure (\<lambda>n. n)") auto

declare decimal.simps [simp del]

text \<open>
  Two places of the screens leave what this development computes: a number of
  magnitude \<open>10^21\<close> or more, which \<open>toFixed\<close> prints in the exponent notation of
  \<open>Number::toString\<close>, and a currency code that names a property inherited from
  \<open>Object.prototype\<close>, which the lookup \<open>symbols[currency]\<close> of an object literal
  finds there.  Both are reported as values of \<open>out_of_model\<close>.
\<close>

datatype out_of_model = Exponent_notation | Inherited_property

text \<open>
  \<open>Number.prototype.toFixed(f)\<close> on a finite number \<open>x\<close>, read as the rational it
  denotes: the sign, then the integer \<open>n\<close> with \<open>n / 10^f\<close> nearest to \<open>|x|\<close> (the larger
  one on a tie), printed with \<open>f\<close> digits after the point.
\<close>

definition fixed_digits :: "nat \<Rightarrow> nat \<Rightarrow> jsstring" where
  "fixed_digits f n =
     (let m = decimal n in
      if f = 0 then m
      else let m' = replicate (f + 1 - length m) (of_nat 48) @ m;
               k = length m'
           in take (k - f) m' @ js ''.'' @ drop (k - f) m')"

definition toFixed :: "nat \<Rightarrow> rat \<Rightarrow> out_of_model + jsstring" where
  "toFixed f x =
     (let s = (if x < 0 then js ''-'' else []);
          a = \<bar>x\<bar>
      in if 10 ^ 21 \<le> a then Inl Exponent_notation
         else Inr (s @ fixed_digits f (nat \<lfloor>a * 10 ^ f + 1 / 2\<rfloor>)))"

section \<open>Marketplace posts\<close>

type_synonym uuid = jsstring

datatype post_status = Active | Sold

record bazaar_post =
  p_id :: uuid
  p_user_id :: uuid
  p_title :: jsstring
  p_description :: "jsstring option"
  p_price :: "rat option"
  p_currency :: "jsstring option"
  p_city :: "jsstring option"
  p_contact :: "jsstring option"
  p_photo_url :: "jsstring option"
  p_status :: post_status
  p_sold_at :: "jsstring option"

subsection \<open>Price formatting\<close>

text \<open>
  Both the marketplace grid and the listing detail screen declare a local
  \<open>formatPrice\<close> over the same table of currency symbols.
\<close>

definition object_prototype_keys :: "jsstring list" where
  "object_prototype_keys = map js
     [''constructor'', ''hasOwnProperty'', ''isPrototypeOf'', ''propertyIsEnumerable'',
      ''toLocaleString'', ''toString'', ''valueOf'', ''__proto__'',
      ''__defineGetter__'', ''__defineSetter__'', ''__lookupGetter__'', ''__lookupSetter__'']"

definition symbols :: "(jsstring \<times> jsstring) list" where
  "symbols = [(js ''CAD'', js ''C$''), (js ''USD'', js ''$''), (js ''EUR'', euro_sign)]"

text \<open>\<open>symbols[currency] || '$'\<close>\<close>

definition symbol_for :: "jsstring \<Rightarrow> out_of_model + jsstring" where
  "symbol_for currency =
     (case map_of symbols currency of
        Some s \<Rightarrow> Inr s
      | None \<Rightarrow> if currency \<in> set object_prototype_keys then Inl Inherited_property
                else Inr (js ''$''))"

text \<open>The grid (\<open>app/(tabs)/bazaar.tsx\<close>): a label for a missing price, no decimals.\<close>

definition formatPrice :: "rat option \<Rightarrow> jsstring option \<Rightarrow> out_of_model + jsstring" where
  "formatPrice price currency =
     (case (price, currency) of
        (Some p, Some c) \<Rightarrow>
          if c = [] then Inr (js ''Contact for price'')
          else (case symbol_for c of
                  Inl e \<Rightarrow> Inl e
                | Inr symbol \<Rightarrow>
                    (case toFixed 0 p of
                       Inl e \<Rightarrow> Inl e
                     | Inr digits \<Rightarrow> Inr (symbol @ digits)))
      | _ \<Rightarrow> Inr (js ''Contact for price''))"

text \<open>
  The detail screen (\<open>BazaarDetailScreen\<close>): \<open>null\<close> (here \<open>None\<close>) for a missing
  price, two decimals and the currency code after a space.
\<close>

definition formatPrice_detail ::
  "rat option \<Rightarrow> jsstring option \<Rightarrow> out_of_model + jsstring option" where
  "formatPrice_detail price currency =
     (case (price, currency) of
        (Some p, Some c) \<Rightarrow>
          if c = [] then Inr None
          else (case symbol_for c of
                  Inl e \<Rightarrow> Inl e
                | Inr symbol \<Rightarrow>
                    (case toFixed 2 p of
                       Inl e \<Rightarrow> Inl e
                     | Inr digits \<Rightarrow> Inr (Some (symbol @ digits @ js '' '' @ c))))
      | _ \<Rightarrow> Inr None)"

subsection \<open>The client-side listing filter of the grid\<close>

datatype listing_filter = All_listings | Mine

text \<open>
  \<open>filteredPosts\<close> of \<open>BazaarScreen\<close>.  \<open>lower\<close> stands for
  \<open>String.prototype.toLowerCase\<close>; \<open>user\<close> is the identifier of the signed-in user,
  if any.
\<close>

definition matches_query :: "(jsstring \<Rightarrow> jsstring) \<Rightarrow> jsstring \<Rightarrow> bazaar_post \<Rightarrow> bool" where
  "matches_query lower query post \<longleftrightarrow>
     includes_str (lower (p_title post)) query
     \<or> includes_str (lower (case p_description post of Some d \<Rightarrow> d | None \<Rightarrow> [])) query
     \<or> includes_str (lower (case p_city post of Some c \<Rightarrow> c | None \<Rightarrow> [])) query"

definition filteredPosts ::
  "(jsstring \<Rightarrow> jsstring) \<Rightarrow> bazaar_post list \<Rightarrow> jsstring \<Rightarrow> listing_filter \<Rightarrow> uuid option
     \<Rightarrow> bazaar_post list" where
  "filteredPosts lower posts searchQuery listingFilter user =
     (let query = lower (trim searchQuery);
          scoped = (case (listingFilter, user) of
                      (Mine, Some uid) \<Rightarrow> filter (\<lambda>post. p_user_id post = uid) posts
                    | _ \<Rightarrow> filter (\<lambda>post. p_status post \<noteq> Sold) posts)
      in if query = [] then scoped
         else filter (matches_query lower query) scoped)"

section \<open>Effects of a handler\<close>

text \<open>
  A handler of a screen is a function from what it reads (the session, the screen's
  state, the tables of the backend) to the tables afterwards and the effects it had, in
  the order it had them: the requests it sent, the alerts it raised, the navigation.
\<close>

datatype request =
    Select_conversation uuid uuid
  | Insert_conversation uuid uuid uuid
  | Select_conversation_by_id uuid
  | Select_messages uuid
  | Update_messages_read uuid uuid
  | Update_message_read uuid
  | Insert_message uuid uuid jsstring
  | Subscribe_messages uuid
  | Unsubscribe_messages uuid

datatype db_error =
    Unique_violation
  | Check_violation
  | Row_security_violation

datatype effect =
    Request request
  | Alert jsstring jsstring
  | Alert_error jsstring db_error
  | Router_push jsstring
  | Router_back

text \<open>\<open>.single()\<close> of the query builder: the row when exactly one row matched.\<close>

definition single :: "'a list \<Rightarrow> 'a option" where
  "single rows = (case rows of [r] \<Rightarrow> Some r | _ \<Rightarrow> None)"

section \<open>Conversations\<close>

text \<open>
  The table \<open>bazaar_conversations\<close>: primary key \<open>id\<close>, \<open>UNIQUE(post_id, buyer_id)\<close>,
  readable by its two participants, insertable by the buyer.  Foreign keys are left
  out: the posts and users referred to exist.
\<close>

record bazaar_conversation =
  c_id :: uuid
  c_post_id :: uuid
  c_buyer_id :: uuid
  c_seller_id :: uuid

definition participant :: "uuid \<Rightarrow> bazaar_conversation \<Rightarrow> bool" where
  "participant uid c \<longleftrightarrow> c_buyer_id c = uid \<or> c_seller_id c = uid"

definition select_conversation ::
  "uuid \<Rightarrow> bazaar_conversation list \<Rightarrow> uuid \<Rightarrow> uuid \<Rightarrow> bazaar_conversation option" where
  "select_conversation uid table post buyer =
     single (filter (\<lambda>c. participant uid c \<and> c_post_id c = post \<and> c_buyer_id c = buyer) table)"

definition insert_conversation ::
  "uuid \<Rightarrow> bazaar_conversation list \<Rightarrow> uuid \<Rightarrow> uuid \<Rightarrow> uuid \<Rightarrow> uuid
     \<Rightarrow> db_error + (bazaar_conversation list \<times> bazaar_conversation)" where
  "insert_conversation uid table new_id post buyer seller =
     (let row = \<lparr>c_id = new_id, c_post_id = post, c_buyer_id = buyer, c_seller_id = seller\<rparr> in
      if uid \<noteq> buyer then Inl Row_security_violation
      else if list_ex (\<lambda>c. c_id c = new_id) table then Inl Unique_violation
      else if list_ex (\<lambda>c. c_post_id c = post \<and> c_buyer_id c = buyer) table
        then Inl Unique_violation
      else Inr (table @ [row], row))"

definition unique_post_buyer :: "bazaar_conversation list \<Rightarrow> bool" where
  "unique_post_buyer table = distinct (map (\<lambda>c. (c_post_id c, c_buyer_id c)) table)"

text \<open>
  \<open>handleMessageSeller\<close> of the listing detail screen.  \<open>concurrent\<close> are the rows other
  sessions commit between the handler's lookup and its insert (the same buyer on a
  second device, say); \<open>new_id\<close> is the identifier the backend generates for the row.
\<close>

definition unable_to_start :: effect where
  "unable_to_start = Alert (js ''Error'') (js ''Unable to start conversation. Please try again.'')"

definition messages_route :: "uuid \<Rightarrow> jsstring" where
  "messages_route cid = js ''/bazaar/messages/'' @ cid"

definition handleMessageSeller ::
  "uuid option \<Rightarrow> bazaar_post option \<Rightarrow> bazaar_conversation list \<Rightarrow> bazaar_conversation list
     \<Rightarrow> uuid \<Rightarrow> bazaar_conversation list \<times> effect list" where
  "handleMessageSeller user post table concurrent new_id =
     (case (user, post) of
        (Some uid, Some p) \<Rightarrow>
          (case select_conversation uid table (p_id p) uid of
             Some existingConv \<Rightarrow>
               (table,
                [Request (Select_conversation (p_id p) uid),
                 Router_push (messages_route (c_id existingConv))])
           | None \<Rightarrow>
               (case insert_conversation uid (table @ concurrent) new_id (p_id p) uid (p_user_id p) of
                  Inl error \<Rightarrow>
                    (table @ concurrent,
                     [Request (Select_conversation (p_id p) uid),
                      Request (Insert_conversation (p_id p) uid (p_user_id p)),
                      unable_to_start])
                | Inr (table', newConv) \<Rightarrow>
                    (table',
                     [Request (Select_conversation (p_id p) uid),
                      Request (Insert_conversation (p_id p) uid (p_user_id p)),
                      Router_push (messages_route (c_id newConv))])))
      | _ \<Rightarrow> (table, []))"

definition is_lookup :: "effect \<Rightarrow> bool" where
  "is_lookup e = (case e of Request (Select_conversation post buyer) \<Rightarrow> True | _ \<Rightarrow> False)"

definition is_navigation :: "effect \<Rightarrow> bool" where
  "is_navigation e = (case e of Router_push path \<Rightarrow> True | _ \<Rightarrow> False)"

section \<open>Messages\<close>

text \<open>
  The table \<open>bazaar_messages\<close>.  Its row-level security lets the participants of a
  message's conversation read it and update it.
\<close>

record bazaar_message =
  m_id :: uuid
  m_conversation_id :: uuid
  m_sender_id :: uuid
  m_content :: jsstring
  m_is_read :: bool
  m_created_at :: jsstring

definition message_visible :: "uuid \<Rightarrow> bazaar_conversation list \<Rightarrow> bazaar_message \<Rightarrow> bool" where
  "message_visible uid convs m \<longleftrightarrow>
     list_ex (\<lambda>c. c_id c = m_conversation_id m \<and> participant uid c) convs"

text \<open>
  \<open>markMessagesAsRead\<close> of the chat screen: one update over the rows of the
  conversation that another user sent and that are unread.
\<close>

definition markMessagesAsRead ::
  "uuid option \<Rightarrow> uuid \<Rightarrow> bazaar_conversation list \<Rightarrow> bazaar_message list \<Rightarrow> bazaar_message list" where
  "markMessagesAsRead user conversationId convs table =
     (case user of
        None \<Rightarrow> table
      | Some uid \<Rightarrow>
          map (\<lambda>m. if message_visible uid convs m
                      \<and> m_conversation_id m = conversationId
                      \<and> m_sender_id m \<noteq> uid
                      \<and> m_is_read m = False
                    then m\<lparr>m_is_read := True\<rparr> else m) table)"

text \<open>\<open>markMessageAsRead\<close>: the update of one row, by identifier.\<close>

definition markMessageAsRead ::
  "uuid \<Rightarrow> uuid \<Rightarrow> bazaar_conversation list \<Rightarrow> bazaar_message list \<Rightarrow> bazaar_message list" where
  "markMessageAsRead uid messageId convs table =
     map (\<lambda>m. if message_visible uid convs m \<and> m_id m = messageId
               then m\<lparr>m_is_read := True\<rparr> else m) table"

text \<open>
  The unread count of a conversation, as \<open>loadConversations\<close> of the inbox asks for it
  (\<open>count: 'exact'\<close> over the conversation, \<open>is_read = false\<close>, \<open>sender_id \<noteq> user\<close>).
\<close>

definition unread_count ::
  "uuid \<Rightarrow> uuid \<Rightarrow> bazaar_conversation list \<Rightarrow> bazaar_message list \<Rightarrow> nat" where
  "unread_count uid conversationId convs table =
     length (filter (\<lambda>m. message_visible uid convs m
                          \<and> m_conversation_id m = conversationId
                          \<and> m_is_read m = False
                          \<and> m_sender_id m \<noteq> uid) table)"

section \<open>The chat screen\<close>

text \<open>
  The state of \<open>ChatScreen\<close> that its message handling touches.  \<open>history_pending\<close>
  and \<open>subscribed\<close> are not React state: they record that the request of
  \<open>loadMessages\<close> awaits its response, and that the channel of the effect is open.
\<close>

record chat_screen =
  messages :: "bazaar_message list"
  newMessage :: jsstring
  loading :: bool
  sending :: bool
  history_pending :: bool
  subscribed :: bool

definition initial_chat_screen :: chat_screen where
  "initial_chat_screen =
     \<lparr>messages = [], newMessage = [], loading = True, sending = False,
      history_pending = False, subscribed = False\<rparr>"

text \<open>
  The body of the effect on \<open>[conversationId, user]\<close>.  It calls \<open>loadConversation\<close>,
  \<open>loadMessages\<close> and \<open>markMessagesAsRead\<close> without awaiting any of them and subscribes
  to the channel, all in one turn of the event loop; the responses and the insert
  events come in later turns.
\<close>

definition chat_effect ::
  "uuid option \<Rightarrow> uuid option \<Rightarrow> chat_screen \<Rightarrow> chat_screen \<times> effect list" where
  "chat_effect conversationId user st =
     (case (conversationId, user) of
        (Some cid, Some uid) \<Rightarrow>
          if cid = [] then (st, [])
          else (st\<lparr>history_pending := True, subscribed := True\<rparr>,
                [Request (Select_conversation_by_id cid),
                 Request (Select_messages cid),
                 Request (Update_messages_read cid uid),
                 Request (Subscribe_messages cid)])
      | _ \<Rightarrow> (st, []))"

text \<open>The cleanup of the effect.\<close>

definition chat_cleanup :: "uuid \<Rightarrow> chat_screen \<Rightarrow> chat_screen \<times> effect list" where
  "chat_cleanup cid st = (st\<lparr>subscribed := False\<rparr>, [Request (Unsubscribe_messages cid)])"

text \<open>
  The rest of \<open>loadMessages\<close>, run when the response arrives: \<open>Inr rows\<close> is the
  history in ascending order of creation, \<open>Inl e\<close> an error.
\<close>

definition loadMessages_response ::
  "db_error + bazaar_message list \<Rightarrow> chat_screen \<Rightarrow> chat_screen" where
  "loadMessages_response response st =
     (case response of
        Inr data \<Rightarrow> st\<lparr>messages := data, loading := False, history_pending := False\<rparr>
      | Inl error \<Rightarrow> st\<lparr>loading := False, history_pending := False\<rparr>)"

text \<open>The callback of the subscription, run for every insert event of the channel.\<close>

definition subscription_callback ::
  "uuid \<Rightarrow> bazaar_message \<Rightarrow> chat_screen \<Rightarrow> chat_screen \<times> effect list" where
  "subscription_callback uid newMsg st =
     (st\<lparr>messages := messages st @ [newMsg]\<rparr>,
      if m_sender_id newMsg \<noteq> uid then [Request (Update_message_read (m_id newMsg))] else [])"

text \<open>The screen as a machine driven by the turns of the event loop.\<close>

datatype chat_event =
    Effect_runs "uuid option" "uuid option"
  | Cleanup_runs uuid
  | History_response "db_error + bazaar_message list"
  | Insert_event uuid bazaar_message

fun chat_step :: "chat_screen \<Rightarrow> chat_event \<Rightarrow> chat_screen" where
  "chat_step st (Effect_runs conversationId user) = fst (chat_effect conversationId user st)"
| "chat_step st (Cleanup_runs cid) = fst (chat_cleanup cid st)"
| "chat_step st (History_response response) =
     (if history_pending st then loadMessages_response response st else st)"
| "chat_step st (Insert_event uid newMsg) =
     (if subscribed st then fst (subscription_callback uid newMsg st) else st)"

definition chat_run :: "chat_screen \<Rightarrow> chat_event list \<Rightarrow> chat_screen" where
  "chat_run st events = foldl chat_step st events"

definition copies :: "uuid \<Rightarrow> bazaar_message list \<Rightarrow> nat" where
  "copies ident ms = length (filter (\<lambda>m. m_id m = ident) ms)"

text \<open>
  \<open>sendMessage\<close>, in its two turns: up to the \<open>await\<close> of the insert, and from the
  response on.  The first returns \<open>None\<close> when the handler returns at its guard, and
  otherwise the state at the moment the request leaves, the trimmed content and the
  request.
\<close>

definition sendMessage_begin ::
  "uuid \<Rightarrow> uuid option \<Rightarrow> chat_screen \<Rightarrow> (chat_screen \<times> jsstring \<times> effect) option" where
  "sendMessage_begin conversationId user st =
     (case user of
        None \<Rightarrow> None
      | Some uid \<Rightarrow>
          if trim (newMessage st) = [] \<or> sending st then None
          else (let messageContent = trim (newMessage st) in
                Some (st\<lparr>sending := True, newMessage := []\<rparr>,
                      messageContent,
                      Request (Insert_message conversationId uid messageContent))))"

definition sendMessage_resume ::
  "jsstring \<Rightarrow> db_error option \<Rightarrow> chat_screen \<Rightarrow> chat_screen" where
  "sendMessage_resume messageContent error st =
     (let st' = st\<lparr>sending := False\<rparr> in
      case error of
        Some e \<Rightarrow> st'\<lparr>newMessage := messageContent\<rparr>
      | None \<Rightarrow> st')"

text \<open>Both turns in a row, nothing else touching the screen in between.\<close>

definition sendMessage ::
  "uuid \<Rightarrow> uuid option \<Rightarrow> db_error option \<Rightarrow> chat_screen \<Rightarrow> chat_screen \<times> effect list" where
  "sendMessage conversationId user error st =
     (case sendMessage_begin conversationId user st of
        None \<Rightarrow> (st, [])
      | Some (st', messageContent, req) \<Rightarrow> (sendMessage_resume messageContent error st', [req]))"

section \<open>Seller ratings\<close>

text \<open>
  The table \<open>seller_ratings\<close> (\<open>UNIQUE(buyer_id, post_id)\<close>, \<open>rating\<close> between 1 and 5)
  and the two aggregate columns of \<open>profiles\<close> that its trigger maintains.
\<close>

record seller_rating =
  r_id :: uuid
  r_seller_id :: uuid
  r_buyer_id :: uuid
  r_post_id :: "uuid option"
  r_rating :: int
  r_review_text :: "jsstring option"

record profile =
  pr_id :: uuid
  pr_seller_rating :: rat
  pr_seller_rating_count :: nat

record rating_db =
  seller_ratings :: "seller_rating list"
  profiles :: "profile list"

text \<open>
  Row-level security is enabled on the table.  A command on a row is permitted when a
  policy for that command accepts the row; a command with no policy is denied.  The
  schema declares two policies: "Ratings are public" and "Buyers can rate".
\<close>

datatype sql_command = Select | Insert | Update | Delete

type_synonym rating_policy = "sql_command \<times> (uuid \<Rightarrow> seller_rating \<Rightarrow> bool)"

definition seller_ratings_policies :: "rating_policy list" where
  "seller_ratings_policies =
     [(Select, \<lambda>uid r. True),
      (Insert, \<lambda>uid r. uid = r_buyer_id r)]"

definition permitted :: "rating_policy list \<Rightarrow> sql_command \<Rightarrow> uuid \<Rightarrow> seller_rating \<Rightarrow> bool" where
  "permitted policies command uid row =
     list_ex (\<lambda>policy. fst policy = command \<and> snd policy uid row) policies"

text \<open>\<open>ROUND(x, 1)\<close> on \<open>numeric\<close>: to one decimal, ties away from zero.\<close>

definition round1 :: "rat \<Rightarrow> rat" where
  "round1 x = sgn x * of_int \<lfloor>\<bar>x\<bar> * 10 + 1 / 2\<rfloor> / 10"

text \<open>
  The trigger function \<open>update_seller_rating\<close>, run after every insert, update or
  delete of a row, for the seller of that row.
\<close>

definition ratings_of :: "uuid \<Rightarrow> seller_rating list \<Rightarrow> int list" where
  "ratings_of seller table = map r_rating (filter (\<lambda>r. r_seller_id r = seller) table)"

definition average_rating :: "int list \<Rightarrow> rat" where
  "average_rating rs =
     (if rs = [] then 0 else round1 (of_int (sum_list rs) / of_nat (length rs)))"

definition update_seller_rating :: "uuid \<Rightarrow> rating_db \<Rightarrow> rating_db" where
  "update_seller_rating target_seller_id db =
     db\<lparr>profiles :=
          map (\<lambda>p. if pr_id p = target_seller_id
                    then p\<lparr>pr_seller_rating :=
                             average_rating (ratings_of target_seller_id (seller_ratings db)),
                           pr_seller_rating_count :=
                             length (ratings_of target_seller_id (seller_ratings db))\<rparr>
                    else p)
              (profiles db)\<rparr>"

text \<open>
  What the rating screen sends, and the statement the backend runs for
  \<open>upsert(ratingData, {onConflict: 'buyer_id,post_id'})\<close>:
  \<open>INSERT ... ON CONFLICT (buyer_id, post_id) DO UPDATE\<close> of the columns sent.  The
  row proposed needs the insert permission; where a row with the same buyer and post
  exists the statement takes the update path, which needs the update permission for the
  existing row and for the row as updated, and fails when it is denied.
\<close>

record rating_payload =
  rp_seller_id :: uuid
  rp_buyer_id :: uuid
  rp_post_id :: uuid
  rp_rating :: int
  rp_review_text :: "jsstring option"

definition conflicts :: "rating_payload \<Rightarrow> seller_rating \<Rightarrow> bool" where
  "conflicts payload r \<longleftrightarrow>
     r_buyer_id r = rp_buyer_id payload \<and> r_post_id r = Some (rp_post_id payload)"

definition merge_payload :: "rating_payload \<Rightarrow> seller_rating \<Rightarrow> seller_rating" where
  "merge_payload payload r =
     r\<lparr>r_seller_id := rp_seller_id payload,
       r_buyer_id := rp_buyer_id payload,
       r_post_id := Some (rp_post_id payload),
       r_rating := rp_rating payload,
       r_review_text := rp_review_text payload\<rparr>"

definition new_rating_row :: "uuid \<Rightarrow> rating_payload \<Rightarrow> seller_rating" where
  "new_rating_row new_id payload =
     \<lparr>r_id = new_id,
      r_seller_id = rp_seller_id payload,
      r_buyer_id = rp_buyer_id payload,
      r_post_id = Some (rp_post_id payload),
      r_rating = rp_rating payload,
      r_review_text = rp_review_text payload\<rparr>"

definition upsert_seller_rating ::
  "rating_policy list \<Rightarrow> uuid \<Rightarrow> uuid \<Rightarrow> rating_payload \<Rightarrow> rating_db \<Rightarrow> db_error + rating_db" where
  "upsert_seller_rating policies uid new_id payload db =
     (if \<not> permitted policies Insert uid (new_rating_row new_id payload)
        then Inl Row_security_violation
      else if rp_rating payload < 1 \<or> 5 < rp_rating payload then Inl Check_violation
      else
        (case find (conflicts payload) (seller_ratings db) of
           None \<Rightarrow>
             if list_ex (\<lambda>r. r_id r = new_id) (seller_ratings db) then Inl Unique_violation
             else Inr (update_seller_rating (rp_seller_id payload)
                         (db\<lparr>seller_ratings :=
                               seller_ratings db @ [new_rating_row new_id payload]\<rparr>))
         | Some existing \<Rightarrow>
             if permitted policies Update uid existing
                \<and> permitted policies Update uid (merge_payload payload existing)
               then Inr (update_seller_rating (rp_seller_id payload)
                           (db\<lparr>seller_ratings :=
                                 map (\<lambda>r. if conflicts payload r then merge_payload payload r else r)
                                     (seller_ratings db)\<rparr>))
             else Inl Row_security_violation))"

text \<open>
  \<open>handleSubmit\<close> of \<open>RateSellerScreen\<close>.  \<open>rating\<close>, \<open>reviewText\<close> and \<open>existingRating\<close>
  are the screen's state, \<open>postId\<close> its route parameter.
\<close>

definition rating_required :: effect where
  "rating_required = Alert (js ''Rating required'') (js ''Please select a star rating'')"

definition rating_failed :: effect where
  "rating_failed = Alert (js ''Error'') (js ''Failed to submit rating. Please try again.'')"

definition rating_thanks :: "int option \<Rightarrow> effect" where
  "rating_thanks existingRating =
     Alert (js ''Thank you!'')
       (if existingRating \<noteq> None \<and> existingRating \<noteq> Some 0
        then js ''Your rating has been updated.''
        else js ''Your rating has been submitted.'')"

definition handleSubmit_rating ::
  "uuid option \<Rightarrow> bazaar_post option \<Rightarrow> uuid \<Rightarrow> int \<Rightarrow> jsstring \<Rightarrow> int option \<Rightarrow> uuid
     \<Rightarrow> rating_db \<Rightarrow> rating_db \<times> effect list" where
  "handleSubmit_rating user post postId rating reviewText existingRating new_id db =
     (case (user, post) of
        (Some uid, Some p) \<Rightarrow>
          if rating = 0 then (db, [rating_required])
          else
            (let ratingData =
                   \<lparr>rp_seller_id = p_user_id p,
                    rp_buyer_id = uid,
                    rp_post_id = postId,
                    rp_rating = rating,
                    rp_review_text =
                      (if trim reviewText = [] then None else Some (trim reviewText))\<rparr>
             in case upsert_seller_rating seller_ratings_policies uid new_id ratingData db of
                  Inl error \<Rightarrow> (db, [rating_failed])
                | Inr db' \<Rightarrow> (db', [rating_thanks existingRating]))
      | _ \<Rightarrow> (db, [rating_required]))"

section \<open>The life of a listing\<close>

text \<open>
  The table \<open>bazaar_posts\<close>.  An insert that leaves a column out stores the column's
  default: \<open>status TEXT DEFAULT 'active'\<close>, and no default for \<open>sold_at\<close>.  In the
  payload a column left out is \<open>None\<close> in \<open>pl_status\<close>.
\<close>

record post_payload =
  pl_user_id :: uuid
  pl_title :: jsstring
  pl_description :: "jsstring option"
  pl_city :: "jsstring option"
  pl_contact :: jsstring
  pl_price :: "rat option"
  pl_currency :: jsstring
  pl_photo_url :: "jsstring option"
  pl_status :: "post_status option"
  pl_sold_at :: "jsstring option"

definition insert_bazaar_post ::
  "uuid \<Rightarrow> post_payload \<Rightarrow> bazaar_post list \<Rightarrow> db_error + bazaar_post list" where
  "insert_bazaar_post new_id payload table =
     (if list_ex (\<lambda>p. p_id p = new_id) table then Inl Unique_violation
      else Inr (table @
        [\<lparr>p_id = new_id,
          p_user_id = pl_user_id payload,
          p_title = pl_title payload,
          p_description = pl_description payload,
          p_price = pl_price payload,
          p_currency = Some (pl_currency payload),
          p_city = pl_city payload,
          p_contact = Some (pl_contact payload),
          p_photo_url = pl_photo_url payload,
          p_status = (case pl_status payload of None \<Rightarrow> Active | Some s \<Rightarrow> s),
          p_sold_at = pl_sold_at payload\<rparr>]))"

text \<open>
  A JavaScript number is a finite value, one of the two infinities or \<open>NaN\<close>.  In the
  body of a request (\<open>JSON.stringify\<close>) a number that is not finite is written \<open>null\<close>.
\<close>

datatype js_number = Finite rat | Pos_infinity | Neg_infinity | Not_a_number

definition json_number :: "js_number \<Rightarrow> rat option" where
  "json_number n = (case n of Finite r \<Rightarrow> Some r | _ \<Rightarrow> None)"

text \<open>
  The new-listing form (\<open>BazaarNewScreen\<close>).  \<open>to_number\<close> stands for \<open>Number\<close>;
  \<open>upload\<close> is what \<open>uploadPhoto\<close> comes to: the public address of the photo, or the
  message of the error it throws.
\<close>

record listing_form =
  f_title :: jsstring
  f_description :: jsstring
  f_city :: jsstring
  f_contact :: jsstring
  f_price :: jsstring
  f_currency :: jsstring
  f_photo :: "jsstring option"

definition or_null :: "jsstring \<Rightarrow> jsstring option" where
  "or_null s = (if s = [] then None else Some s)"

definition validate :: "(jsstring \<Rightarrow> js_number) \<Rightarrow> listing_form \<Rightarrow> bool" where
  "validate to_number form \<longleftrightarrow>
     \<not> (trim (f_title form) = [])
     \<and> \<not> (trim (f_price form) = [] \<or> to_number (f_price form) = Not_a_number)
     \<and> \<not> (trim (f_contact form) = [])
     \<and> \<not> (f_photo form = None)"

definition handleSubmit_new_listing ::
  "(jsstring \<Rightarrow> js_number) \<Rightarrow> uuid option \<Rightarrow> listing_form \<Rightarrow> jsstring + jsstring \<Rightarrow> uuid
     \<Rightarrow> bazaar_post list \<Rightarrow> bazaar_post list \<times> effect list" where
  "handleSubmit_new_listing to_number user form upload new_id table =
     (case user of
        None \<Rightarrow> (table, [])
      | Some uid \<Rightarrow>
          if \<not> validate to_number form then (table, [])
          else
            (case upload of
               Inl message \<Rightarrow> (table, [Alert (js ''Unable to create listing'') message])
             | Inr photoUrl \<Rightarrow>
                 (case insert_bazaar_post new_id
                         \<lparr>pl_user_id = uid,
                          pl_title = trim (f_title form),
                          pl_description = or_null (trim (f_description form)),
                          pl_city = or_null (trim (f_city form)),
                          pl_contact = trim (f_contact form),
                          pl_price = json_number (to_number (f_price form)),
                          pl_currency = f_currency form,
                          pl_photo_url = Some photoUrl,
                          pl_status = None,
                          pl_sold_at = None\<rparr> table of
                    Inl error \<Rightarrow> (table, [Alert_error (js ''Unable to create listing'') error])
                  | Inr table' \<Rightarrow> (table', [Router_back]))))"

text \<open>
  The owner's actions on the detail screen.  Each asks for confirmation first; \<open>fault\<close>
  is the error of a request that failed, in which case the table is as it was.
\<close>

datatype dialog_choice = Cancel | Confirm

definition update_sold :: "uuid \<Rightarrow> jsstring \<Rightarrow> bazaar_post list \<Rightarrow> bazaar_post list" where
  "update_sold ident now table =
     map (\<lambda>p. if p_id p = ident then p\<lparr>p_status := Sold, p_sold_at := Some now\<rparr> else p) table"

definition handleMarkAsSold ::
  "bazaar_post option \<Rightarrow> dialog_choice \<Rightarrow> jsstring \<Rightarrow> jsstring \<Rightarrow> db_error option
     \<Rightarrow> bazaar_post list \<Rightarrow> bazaar_post list \<times> bazaar_post option \<times> effect list" where
  "handleMarkAsSold post choice now now' fault table =
     (case post of
        None \<Rightarrow> (table, post, [])
      | Some p \<Rightarrow>
          (case choice of
             Cancel \<Rightarrow> (table, post, [])
           | Confirm \<Rightarrow>
               (case fault of
                  Some error \<Rightarrow> (table, post, [Alert_error (js ''Update failed'') error])
                | None \<Rightarrow>
                    (update_sold (p_id p) now table,
                     Some (p\<lparr>p_status := Sold, p_sold_at := Some now'\<rparr>),
                     [Alert (js ''Success'') (js ''Your listing has been marked as sold!'')]))))"

definition handleDelete ::
  "bazaar_post option \<Rightarrow> dialog_choice \<Rightarrow> db_error option \<Rightarrow> bazaar_post list
     \<Rightarrow> bazaar_post list \<times> effect list" where
  "handleDelete post choice fault table =
     (case post of
        None \<Rightarrow> (table, [])
      | Some p \<Rightarrow>
          (case choice of
             Cancel \<Rightarrow> (table, [])
           | Confirm \<Rightarrow>
               (case fault of
                  Some error \<Rightarrow> (table, [Alert_error (js ''Delete failed'') error])
                | None \<Rightarrow> (filter (\<lambda>q. p_id q \<noteq> p_id p) table, [Router_back]))))"

text \<open>
  Modelled from the spec: the handler of the edit-listing screen (route
  \<open>bazaar/edit/[id]\<close>, declared in the layout and opened by the owner's edit button of
  the detail screen, on sold listings too) is missing.  The spec has marking as sold
  one-directional, with no re-list operation in the design.  The screen is therefore an
  update of the row of the listing that may write any of its columns but \<open>status\<close> and
  \<open>sold_at\<close>, and not the primary key: \<open>edit\<close> is what it does to the other columns,
  \<open>fault\<close> the error of a request that failed.
\<close>

definition edit_listing ::
  "uuid \<Rightarrow> (bazaar_post \<Rightarrow> bazaar_post) \<Rightarrow> db_error option \<Rightarrow> bazaar_post list
     \<Rightarrow> bazaar_post list" where
  "edit_listing ident edit fault table =
     (case fault of
        Some error \<Rightarrow> table
      | None \<Rightarrow>
          map (\<lambda>p. if p_id p = ident
                    then (edit p)\<lparr>p_id := p_id p, p_status := p_status p, p_sold_at := p_sold_at p\<rparr>
                    else p) table)"

text \<open>
  The operations of the screens on the table, and the table after a sequence of them.
\<close>

datatype listing_op =
    New_listing "uuid option" listing_form "jsstring + jsstring" uuid
  | Mark_as_sold "bazaar_post option" dialog_choice jsstring jsstring "db_error option"
  | Delete_listing "bazaar_post option" dialog_choice "db_error option"
  | Edit_listing uuid "bazaar_post \<Rightarrow> bazaar_post" "db_error option"

fun listing_step ::
  "(jsstring \<Rightarrow> js_number) \<Rightarrow> bazaar_post list \<Rightarrow> listing_op \<Rightarrow> bazaar_post list" where
  "listing_step to_number table (New_listing user form upload new_id) =
     fst (handleSubmit_new_listing to_number user form upload new_id table)"
| "listing_step to_number table (Mark_as_sold post choice now now' fault) =
     fst (handleMarkAsSold post choice now now' fault table)"
| "listing_step to_number table (Delete_listing post choice fault) =
     fst (handleDelete post choice fault table)"
| "listing_step to_number table (Edit_listing ident edit fault) =
     edit_listing ident edit fault table"

definition listing_run ::
  "(jsstring \<Rightarrow> js_number) \<Rightarrow> bazaar_post list \<Rightarrow> listing_op list \<Rightarrow> bazaar_post list" where
  "listing_run to_number table ops = foldl (listing_step to_number) table ops"

definition find_post :: "uuid \<Rightarrow> bazaar_post list \<Rightarrow> bazaar_post option" where
  "find_post ident table = find (\<lambda>p. p_id p = ident) table"

definition status_of :: "uuid \<Rightarrow> bazaar_post list \<Rightarrow> post_status option" where
  "status_of ident table = map_option p_status (find_post ident table)"

section \<open>Sample data\<close>

definition sample_post :: "string \<Rightarrow> string \<Rightarrow> post_status \<Rightarrow> bazaar_post" where
  "sample_post ident owner st =
     \<lparr>p_id = js ident, p_user_id = js owner, p_title = js ''Lamp'', p_description = None,
      p_price = Some 25, p_currency = Some (js ''CAD''), p_city = Some (js ''Ottawa''),
      p_contact = Some (js ''a@b.c''), p_photo_url = None,
      p_status = st, p_sold_at = (case st of Sold \<Rightarrow> Some (js ''2025-01-01T00:00:00.000Z'') | Active \<Rightarrow> None)\<rparr>"

definition sample_message :: "string \<Rightarrow> string \<Rightarrow> string \<Rightarrow> bool \<Rightarrow> bazaar_message" where
  "sample_message ident conv sender is_read =
     \<lparr>m_id = js ident, m_conversation_id = js conv, m_sender_id = js sender,
      m_content = js ''salam'', m_is_read = is_read, m_created_at = js ''2025-01-01T00:00:00.000Z''\<rparr>"

definition sample_conversation :: "string \<Rightarrow> string \<Rightarrow> string \<Rightarrow> string \<Rightarrow> bazaar_conversation" where
  "sample_conversation ident post buyer seller =
     \<lparr>c_id = js ident, c_post_id = js post, c_buyer_id = js buyer, c_seller_id = js seller\<rparr>"

definition sample_chat :: "bazaar_message list \<Rightarrow> string \<Rightarrow> bool \<Rightarrow> chat_screen" where
  "sample_chat ms draft busy =
     \<lparr>messages = ms, newMessage = js draft, loading = False, sending = busy,
      history_pending = False, subscribed = True\<rparr>"

definition sample_form :: listing_form where
  "sample_form =
     \<lparr>f_title = js '' Lamp '', f_description = js '''', f_city = js ''Ottawa'',
      f_contact = js ''a@b.c'', f_price = js ''25'', f_currency = js ''CAD'',
      f_photo = Some (js ''file:///lamp.jpg'')\<rparr>"

definition sample_to_number :: "jsstring \<Rightarrow> js_number" where
  "sample_to_number s =
     (if s = js ''25'' then Finite 25
      else if s = js ''Infinity'' then Pos_infinity
      else Not_a_number)"

definition sample_edit :: "bazaar_post \<Rightarrow> bazaar_post" where
  "sample_edit p = p\<lparr>p_title := js ''Desk lamp'', p_price := Some 20\<rparr>"

definition sample_photo_url :: jsstring where
  "sample_photo_url = js ''https://cdn.example/u1/1.jpg''"

definition sample_rating_db :: rating_db where
  "sample_rating_db =
     \<lparr>seller_ratings =
        [\<lparr>r_id = js ''r1'', r_seller_id = js ''u2'', r_buyer_id = js ''u1'',
          r_post_id = Some (js ''p1''), r_rating = 3, r_review_text = Some (js ''fine'')\<rparr>],
      profiles = [\<lparr>pr_id = js ''u2'', pr_seller_rating = 3, pr_seller_rating_count = 1\<rparr>]\<rparr>"

definition sample_rating_payload :: rating_payload where
  "sample_rating_payload =
     \<lparr>rp_seller_id = js ''u2'', rp_buyer_id = js ''u1'', rp_post_id = js ''p1'',
      rp_rating = 5, rp_review_text = None\<rparr>"

definition buyers_can_update :: rating_policy where
  "buyers_can_update = (Update, \<lambda>uid r. uid = r_buyer_id r)"

section \<open>Price formatting\<close>

text \<open>
  C3, as the screens have it.  The grid's \<open>formatPrice\<close> gives \<open>C$25\<close> for 25.00 in CAD,
  \<open>$25\<close> for 25.00 in USD and the label \<open>Contact for price\<close> for a null price.  The
  detail screen's \<open>formatPrice\<close> gives \<open>C$25.00 CAD\<close>, \<open>$25.00 USD\<close> and \<open>null\<close>.
\<close>

theorem formatPrice_by_screen:
  "formatPrice (Some 25) (Some (js ''CAD'')) = Inr (js ''C$25'')
   \<and> formatPrice (Some 25) (Some (js ''USD'')) = Inr (js ''$25'')
   \<and> formatPrice None currency = Inr (js ''Contact for price'')
   \<and> formatPrice_detail (Some 25) (Some (js ''CAD'')) = Inr (Some (js ''C$25.00 CAD''))
   \<and> formatPrice_detail (Some 25) (Some (js ''USD'')) = Inr (Some (js ''$25.00 USD''))
   \<and> formatPrice_detail None currency = Inr None"
proof -
  have "formatPrice (Some 25) (Some (js ''CAD'')) = Inr (js ''C$25'')"
    by code_simp
  moreover have "formatPrice (Some 25) (Some (js ''USD'')) = Inr (js ''$25'')"
    by code_simp
  moreover have "formatPrice None currency = Inr (js ''Contact for price'')"
    by (simp add: formatPrice_def)
  moreover have "formatPrice_detail (Some 25) (Some (js ''CAD'')) = Inr (Some (js ''C$25.00 CAD''))"
    by code_simp
  moreover have "formatPrice_detail (Some 25) (Some (js ''USD'')) = Inr (Some (js ''$25.00 USD''))"
    by code_simp
  moreover have "formatPrice_detail None currency = Inr None"
    by (simp add: formatPrice_detail_def)
  ultimately show ?thesis by blast
qed

theorem formatPrice_by_screen_witness:
  "formatPrice None (Some (js ''EUR'')) = Inr (js ''Contact for price'')
   \<and> formatPrice_detail None (Some (js ''EUR'')) = Inr None"
  using formatPrice_by_screen [of "Some (js ''EUR'')"] by blast

text \<open>
  The sentence of C3 read for the detail screen: its \<open>formatPrice\<close> returns none of the
  three strings.
\<close>

theorem formatPrice_detail_counterexample:
  "formatPrice_detail (Some 25) (Some (js ''CAD'')) \<noteq> Inr (Some (js ''C$25''))
   \<and> formatPrice_detail (Some 25) (Some (js ''USD'')) \<noteq> Inr (Some (js ''$25''))
   \<and> formatPrice_detail None (Some (js ''CAD'')) \<noteq> Inr (Some (js ''Contact for price''))"
proof -
  have "formatPrice_detail (Some 25) (Some (js ''CAD'')) \<noteq> Inr (Some (js ''C$25''))"
    by code_simp
  moreover have "formatPrice_detail (Some 25) (Some (js ''USD'')) \<noteq> Inr (Some (js ''$25''))"
    by code_simp
  moreover have "formatPrice_detail None (Some (js ''CAD'')) \<noteq> Inr (Some (js ''Contact for price''))"
    by (simp add: formatPrice_detail_def)
  ultimately show ?thesis by blast
qed

section \<open>The listing filter\<close>

text \<open>
  C10.  Under the filter for all listings, \<open>filteredPosts\<close> holds no sold post, whatever
  the posts fetched, the search text and the session.  Under the filter for the user's
  own listings, with a user signed in, it holds only posts of that user, and a sold post
  of that user that passes the search text is among them.
\<close>

theorem filteredPosts_scope:
  "(\<forall>post \<in> set (filteredPosts lower posts searchQuery All_listings user).
      p_status post \<noteq> Sold)
   \<and> (\<forall>post \<in> set (filteredPosts lower posts searchQuery Mine (Some uid)).
        p_user_id post = uid)
   \<and> (\<forall>post \<in> set posts.
        p_user_id post = uid \<and> p_status post = Sold
        \<and> (lower (trim searchQuery) = [] \<or> matches_query lower (lower (trim searchQuery)) post)
        \<longrightarrow> post \<in> set (filteredPosts lower posts searchQuery Mine (Some uid)))"
  by (auto simp: filteredPosts_def Let_def split: listing_filter.splits option.splits)

theorem filteredPosts_scope_witness:
  "sample_post ''p2'' ''u2'' Active
     \<in> set (filteredPosts (\<lambda>s. s) [sample_post ''p1'' ''u1'' Sold, sample_post ''p2'' ''u2'' Active]
              (js '' Lamp '') All_listings (Some (js ''u1'')))
   \<and> p_status (sample_post ''p2'' ''u2'' Active) \<noteq> Sold
   \<and> sample_post ''p1'' ''u1'' Sold
     \<in> set (filteredPosts (\<lambda>s. s) [sample_post ''p1'' ''u1'' Sold, sample_post ''p2'' ''u2'' Active]
              (js '' Lamp '') Mine (Some (js ''u1'')))
   \<and> p_user_id (sample_post ''p1'' ''u1'' Sold) = js ''u1''
   \<and> p_status (sample_post ''p1'' ''u1'' Sold) = Sold"
proof -
  let ?posts = "[sample_post ''p1'' ''u1'' Sold, sample_post ''p2'' ''u2'' Active]"
  note scope = filteredPosts_scope [of "\<lambda>s. s" ?posts "js '' Lamp ''" "Some (js ''u1'')" "js ''u1''"]
  have shown: "sample_post ''p2'' ''u2'' Active
      \<in> set (filteredPosts (\<lambda>s. s) ?posts (js '' Lamp '') All_listings (Some (js ''u1'')))"
    by code_simp
  have fetched: "sample_post ''p1'' ''u1'' Sold \<in> set ?posts"
    by simp
  have mine: "p_user_id (sample_post ''p1'' ''u1'' Sold) = js ''u1''"
    by (simp add: sample_post_def)
  have sold: "p_status (sample_post ''p1'' ''u1'' Sold) = Sold"
    by (simp add: sample_post_def)
  have found: "matches_query (\<lambda>s. s) (trim (js '' Lamp '')) (sample_post ''p1'' ''u1'' Sold)"
    by code_simp
  from scope shown have "p_status (sample_post ''p2'' ''u2'' Active) \<noteq> Sold"
    by blast
  moreover from scope fetched mine sold found
  have "sample_post ''p1'' ''u1'' Sold
      \<in> set (filteredPosts (\<lambda>s. s) ?posts (js '' Lamp '') Mine (Some (js ''u1'')))"
    by blast
  ultimately show ?thesis using shown mine sold by blast
qed

section \<open>Read state\<close>

text \<open>
  C6.  After \<open>markMessagesAsRead\<close> for a user and a conversation, the unread count of
  that conversation for that user is zero, whatever it was; and running
  \<open>markMessagesAsRead\<close> a second time changes no row.
\<close>

theorem markMessagesAsRead_clears_unread:
  "unread_count uid conversationId convs
     (markMessagesAsRead (Some uid) conversationId convs table) = 0
   \<and> markMessagesAsRead (Some uid) conversationId convs
       (markMessagesAsRead (Some uid) conversationId convs table)
     = markMessagesAsRead (Some uid) conversationId convs table"
  by (auto simp: unread_count_def markMessagesAsRead_def message_visible_def filter_empty_conv)

theorem markMessagesAsRead_clears_unread_witness:
  "unread_count (js ''u1'') (js ''c1'') [sample_conversation ''c1'' ''p1'' ''u1'' ''u2'']
     [sample_message ''m1'' ''c1'' ''u2'' False, sample_message ''m2'' ''c1'' ''u2'' False] = 2
   \<and> unread_count (js ''u1'') (js ''c1'') [sample_conversation ''c1'' ''p1'' ''u1'' ''u2'']
       (markMessagesAsRead (Some (js ''u1'')) (js ''c1'')
          [sample_conversation ''c1'' ''p1'' ''u1'' ''u2'']
          [sample_message ''m1'' ''c1'' ''u2'' False, sample_message ''m2'' ''c1'' ''u2'' False]) = 0"
proof -
  have before: "unread_count (js ''u1'') (js ''c1'') [sample_conversation ''c1'' ''p1'' ''u1'' ''u2'']
     [sample_message ''m1'' ''c1'' ''u2'' False, sample_message ''m2'' ''c1'' ''u2'' False] = 2"
    by code_simp
  show ?thesis
    using before
      markMessagesAsRead_clears_unread [of "js ''u1''" "js ''c1''"
        "[sample_conversation ''c1'' ''p1'' ''u1'' ''u2'']"
        "[sample_message ''m1'' ''c1'' ''u2'' False, sample_message ''m2'' ''c1'' ''u2'' False]"]
    by blast
qed

section \<open>Sending a message\<close>

text \<open>
  C9.  \<open>sendMessage\<close> returns at once, touching nothing and sending nothing, when no user
  is signed in, when the input trims to the empty string, or when a send is in
  flight.  Otherwise the input is already empty and \<open>sending\<close> set when the insert
  request leaves, and the request carries the trimmed input.  When the insert reports
  an error the input is set to that trimmed text; when it does not, the input is left
  as it is (empty, if nothing else wrote to it); in neither case does \<open>sendMessage\<close>
  change the list of messages.
\<close>

theorem sendMessage_keeps_draft:
  "(user = None \<or> trim (newMessage st) = [] \<or> sending st
      \<longrightarrow> sendMessage_begin conversationId user st = None
          \<and> sendMessage conversationId user error st = (st, []))
   \<and> (user = Some uid \<and> trim (newMessage st) \<noteq> [] \<and> \<not> sending st
      \<longrightarrow> sendMessage_begin conversationId user st =
            Some (st\<lparr>sending := True, newMessage := []\<rparr>, trim (newMessage st),
                  Request (Insert_message conversationId uid (trim (newMessage st))))
          \<and> newMessage (fst (sendMessage conversationId user (Some e) st)) = trim (newMessage st)
          \<and> newMessage (fst (sendMessage conversationId user None st)) = []
          \<and> messages (fst (sendMessage conversationId user error st)) = messages st
          \<and> sending (fst (sendMessage conversationId user error st)) = False)
   \<and> newMessage (sendMessage_resume content (Some e) st') = content
   \<and> newMessage (sendMessage_resume content None st') = newMessage st'
   \<and> messages (sendMessage_resume content error st') = messages st'"
  by (auto simp: sendMessage_begin_def sendMessage_def sendMessage_resume_def Let_def
           split: option.splits)

theorem sendMessage_keeps_draft_witness:
  "trim (newMessage (sample_chat [] ''   '' False)) = []
   \<and> sendMessage (js ''c1'') (Some (js ''u1'')) None (sample_chat [] ''   '' False)
       = (sample_chat [] ''   '' False, [])
   \<and> trim (newMessage (sample_chat [] '' salam '' False)) \<noteq> []
   \<and> \<not> sending (sample_chat [] '' salam '' False)
   \<and> newMessage (fst (sendMessage (js ''c1'') (Some (js ''u1'')) (Some Row_security_violation)
                        (sample_chat [] '' salam '' False))) = js ''salam''
   \<and> newMessage (fst (sendMessage (js ''c1'') (Some (js ''u1'')) None
                        (sample_chat [] '' salam '' False))) = []"
proof -
  have blank: "trim (newMessage (sample_chat [] ''   '' False)) = []"
    by code_simp
  have trimmed: "trim (newMessage (sample_chat [] '' salam '' False)) = js ''salam''"
    by code_simp
  have filled: "trim (newMessage (sample_chat [] '' salam '' False)) \<noteq> []"
    by code_simp
  have idle: "\<not> sending (sample_chat [] '' salam '' False)"
    by (simp add: sample_chat_def)
  note guard = sendMessage_keeps_draft [of "Some (js ''u1'')" "sample_chat [] ''   '' False"
      "js ''c1''" None "js ''u1''" Row_security_violation "[]" "sample_chat [] ''   '' False"]
  note sent = sendMessage_keeps_draft [of "Some (js ''u1'')" "sample_chat [] '' salam '' False"
      "js ''c1''" None "js ''u1''" Row_security_violation "[]" "sample_chat [] ''   '' False"]
  from guard blank
  have "sendMessage (js ''c1'') (Some (js ''u1'')) None (sample_chat [] ''   '' False)
          = (sample_chat [] ''   '' False, [])"
    by blast
  moreover from sent filled idle trimmed
  have "newMessage (fst (sendMessage (js ''c1'') (Some (js ''u1'')) (Some Row_security_violation)
                        (sample_chat [] '' salam '' False))) = js ''salam''"
    by simp
  moreover from sent filled idle
  have "newMessage (fst (sendMessage (js ''c1'') (Some (js ''u1'')) None
                        (sample_chat [] '' salam '' False))) = []"
    by simp
  ultimately show ?thesis using blank filled idle by blast
qed

section \<open>The conversation resolver\<close>

lemma unique_post_buyer_filter:
  "unique_post_buyer table \<Longrightarrow>
     length (filter (\<lambda>c. c_post_id c = post \<and> c_buyer_id c = buyer) table) \<le> 1"
proof (induction table)
  case Nil
  then show ?case by simp
next
  case (Cons c cs)
  then have rest: "length (filter (\<lambda>c. c_post_id c = post \<and> c_buyer_id c = buyer) cs) \<le> 1"
    and fresh: "(c_post_id c, c_buyer_id c) \<notin> (\<lambda>c. (c_post_id c, c_buyer_id c)) ` set cs"
    by (simp_all add: unique_post_buyer_def)
  show ?case
  proof (cases "c_post_id c = post \<and> c_buyer_id c = buyer")
    case True
    with fresh have "filter (\<lambda>c. c_post_id c = post \<and> c_buyer_id c = buyer) cs = []"
      by (force simp: filter_empty_conv image_iff)
    with True show ?thesis by simp
  next
    case False
    with rest show ?thesis by auto
  qed
qed

lemma single_filter_cases:
  "length xs \<le> 1 \<Longrightarrow> (xs = [] \<and> single xs = None) \<or> (\<exists>x. xs = [x] \<and> single xs = Some x)"
  by (cases xs) (auto simp: single_def split: list.splits)

lemma select_conversation_own:
  "select_conversation uid table post uid =
     single (filter (\<lambda>c. c_post_id c = post \<and> c_buyer_id c = uid) table)"
proof -
  have "(\<lambda>c. participant uid c \<and> c_post_id c = post \<and> c_buyer_id c = uid)
        = (\<lambda>c. c_post_id c = post \<and> c_buyer_id c = uid)"
    by (auto simp: participant_def)
  then show ?thesis by (simp add: select_conversation_def)
qed

text \<open>
  C1, as the handler has it.  When the lookup of \<open>handleMessageSeller\<close> misses and the
  insert that follows fails, for the uniqueness constraint or for anything else, the
  handler sends no further request: it has looked up once, it raises the alert
  \<open>Unable to start conversation. Please try again.\<close> and it does not navigate.
\<close>

theorem handleMessageSeller_create_failure:
  assumes miss: "select_conversation uid table (p_id p) uid = None"
    and fails: "insert_conversation uid (table @ concurrent) new_id (p_id p) uid (p_user_id p) = Inl error"
  shows "handleMessageSeller (Some uid) (Some p) table concurrent new_id =
           (table @ concurrent,
            [Request (Select_conversation (p_id p) uid),
             Request (Insert_conversation (p_id p) uid (p_user_id p)),
             unable_to_start])
         \<and> length (filter is_lookup (snd (handleMessageSeller (Some uid) (Some p) table concurrent new_id))) = 1
         \<and> \<not> list_ex is_navigation (snd (handleMessageSeller (Some uid) (Some p) table concurrent new_id))"
  using miss fails
  by (simp add: handleMessageSeller_def is_lookup_def is_navigation_def unable_to_start_def)

text \<open>
  C5.  On a table that keeps \<open>UNIQUE(post_id, buyer_id)\<close>, with no other session writing
  in between and a fresh identifier for a new row, two runs of \<open>handleMessageSeller\<close> in a
  row for the same user and post navigate to the same conversation: the second run finds
  by its lookup the conversation the first run found or created, sends no insert and
  leaves the table with one conversation for the pair.
\<close>

theorem handleMessageSeller_twice:
  assumes uniq: "unique_post_buyer table"
    and fresh: "\<not> list_ex (\<lambda>c. c_id c = new_id) table"
    and first: "handleMessageSeller (Some uid) (Some p) table [] new_id = (table1, effects1)"
    and second: "handleMessageSeller (Some uid) (Some p) table1 [] new_id' = (table2, effects2)"
  shows "\<exists>cid. last effects1 = Router_push (messages_route cid)
           \<and> effects2 = [Request (Select_conversation (p_id p) uid), Router_push (messages_route cid)]
           \<and> table2 = table1
           \<and> length (filter (\<lambda>c. c_post_id c = p_id p \<and> c_buyer_id c = uid) table2) = 1"
proof -
  let ?mine = "\<lambda>c. c_post_id c = p_id p \<and> c_buyer_id c = uid"
  from unique_post_buyer_filter [OF uniq, of "p_id p" uid]
  have "length (filter ?mine table) \<le> 1" .
  from single_filter_cases [OF this]
  show ?thesis
  proof (elim disjE conjE exE)
    assume none: "filter ?mine table = []" and "single (filter ?mine table) = None"
    then have miss: "select_conversation uid table (p_id p) uid = None"
      by (simp add: select_conversation_own)
    from none have free: "\<not> list_ex ?mine table"
      by (auto simp: filter_empty_conv list_ex_iff)
    let ?row = "\<lparr>c_id = new_id, c_post_id = p_id p, c_buyer_id = uid, c_seller_id = p_user_id p\<rparr>"
    from fresh free
    have ins: "insert_conversation uid table new_id (p_id p) uid (p_user_id p) = Inr (table @ [?row], ?row)"
      by (simp add: insert_conversation_def Let_def)
    from first miss ins have t1: "table1 = table @ [?row]"
      and e1: "effects1 = [Request (Select_conversation (p_id p) uid),
                Request (Insert_conversation (p_id p) uid (p_user_id p)),
                Router_push (messages_route new_id)]"
      by (auto simp: handleMessageSeller_def)
    from none have now: "filter ?mine table1 = [?row]"
      by (simp add: t1)
    then have hit: "select_conversation uid table1 (p_id p) uid = Some ?row"
      by (simp add: select_conversation_own single_def)
    from second hit have "table2 = table1"
      and "effects2 = [Request (Select_conversation (p_id p) uid), Router_push (messages_route new_id)]"
      by (auto simp: handleMessageSeller_def)
    with e1 now show ?thesis by auto
  next
    fix c
    assume one: "filter ?mine table = [c]" and "single (filter ?mine table) = Some c"
    then have hit: "select_conversation uid table (p_id p) uid = Some c"
      by (simp add: select_conversation_own)
    from first hit have t1: "table1 = table"
      and e1: "effects1 = [Request (Select_conversation (p_id p) uid), Router_push (messages_route (c_id c))]"
      by (auto simp: handleMessageSeller_def)
    from second hit t1 have "table2 = table1"
      and "effects2 = [Request (Select_conversation (p_id p) uid), Router_push (messages_route (c_id c))]"
      by (auto simp: handleMessageSeller_def)
    with e1 one t1 show ?thesis by auto
  qed
qed


theorem handleMessageSeller_create_failure_witness:
  "select_conversation (js ''u1'') [] (p_id (sample_post ''p1'' ''u2'' Active)) (js ''u1'') = None
   \<and> insert_conversation (js ''u1'') ([] @ [sample_conversation ''c1'' ''p1'' ''u1'' ''u2''])
         (js ''c2'') (p_id (sample_post ''p1'' ''u2'' Active)) (js ''u1'')
         (p_user_id (sample_post ''p1'' ''u2'' Active)) = Inl Unique_violation
   \<and> length (filter is_lookup
        (snd (handleMessageSeller (Some (js ''u1'')) (Some (sample_post ''p1'' ''u2'' Active)) []
                [sample_conversation ''c1'' ''p1'' ''u1'' ''u2''] (js ''c2'')))) = 1"
proof -
  have miss: "select_conversation (js ''u1'') [] (p_id (sample_post ''p1'' ''u2'' Active)) (js ''u1'') = None"
    by code_simp
  have fails: "insert_conversation (js ''u1'') ([] @ [sample_conversation ''c1'' ''p1'' ''u1'' ''u2''])
         (js ''c2'') (p_id (sample_post ''p1'' ''u2'' Active)) (js ''u1'')
         (p_user_id (sample_post ''p1'' ''u2'' Active)) = Inl Unique_violation"
    by code_simp
  from handleMessageSeller_create_failure [OF miss fails] miss fails show ?thesis
    by blast
qed

text \<open>
  The sentence of C1 at a race: the buyer's other device creates the conversation between
  the lookup and the insert.  A second lookup would find it; the handler makes none and
  alerts.
\<close>

theorem handleMessageSeller_no_relookup_counterexample:
  "select_conversation (js ''u1'') [] (js ''p1'') (js ''u1'') = None
   \<and> select_conversation (js ''u1'') [sample_conversation ''c1'' ''p1'' ''u1'' ''u2'']
         (js ''p1'') (js ''u1'') = Some (sample_conversation ''c1'' ''p1'' ''u1'' ''u2'')
   \<and> handleMessageSeller (Some (js ''u1'')) (Some (sample_post ''p1'' ''u2'' Active)) []
         [sample_conversation ''c1'' ''p1'' ''u1'' ''u2''] (js ''c2'')
       = ([sample_conversation ''c1'' ''p1'' ''u1'' ''u2''],
          [Request (Select_conversation (js ''p1'') (js ''u1'')),
           Request (Insert_conversation (js ''p1'') (js ''u1'') (js ''u2'')),
           Alert (js ''Error'') (js ''Unable to start conversation. Please try again.'')])"
proof -
  have "select_conversation (js ''u1'') [] (js ''p1'') (js ''u1'') = None"
    by code_simp
  moreover have "select_conversation (js ''u1'') [sample_conversation ''c1'' ''p1'' ''u1'' ''u2'']
         (js ''p1'') (js ''u1'') = Some (sample_conversation ''c1'' ''p1'' ''u1'' ''u2'')"
    by code_simp
  moreover have "handleMessageSeller (Some (js ''u1'')) (Some (sample_post ''p1'' ''u2'' Active)) []
         [sample_conversation ''c1'' ''p1'' ''u1'' ''u2''] (js ''c2'')
       = ([sample_conversation ''c1'' ''p1'' ''u1'' ''u2''],
          [Request (Select_conversation (js ''p1'') (js ''u1'')),
           Request (Insert_conversation (js ''p1'') (js ''u1'') (js ''u2'')),
           Alert (js ''Error'') (js ''Unable to start conversation. Please try again.'')])"
    by code_simp
  ultimately show ?thesis by blast
qed

theorem handleMessageSeller_twice_witness:
  "unique_post_buyer [sample_conversation ''c0'' ''p0'' ''u1'' ''u2'']
   \<and> \<not> list_ex (\<lambda>c. c_id c = js ''c1'') [sample_conversation ''c0'' ''p0'' ''u1'' ''u2'']
   \<and> handleMessageSeller (Some (js ''u1'')) (Some (sample_post ''p1'' ''u2'' Active))
        [sample_conversation ''c0'' ''p0'' ''u1'' ''u2''] [] (js ''c1'')
       = ([sample_conversation ''c0'' ''p0'' ''u1'' ''u2'', sample_conversation ''c1'' ''p1'' ''u1'' ''u2''],
          [Request (Select_conversation (js ''p1'') (js ''u1'')),
           Request (Insert_conversation (js ''p1'') (js ''u1'') (js ''u2'')),
           Router_push (messages_route (js ''c1''))])
   \<and> snd (handleMessageSeller (Some (js ''u1'')) (Some (sample_post ''p1'' ''u2'' Active))
        [sample_conversation ''c0'' ''p0'' ''u1'' ''u2'', sample_conversation ''c1'' ''p1'' ''u1'' ''u2'']
        [] (js ''c2''))
       = [Request (Select_conversation (p_id (sample_post ''p1'' ''u2'' Active)) (js ''u1'')),
          Router_push (messages_route (js ''c1''))]"
proof -
  let ?table = "[sample_conversation ''c0'' ''p0'' ''u1'' ''u2'']"
  let ?table1 = "[sample_conversation ''c0'' ''p0'' ''u1'' ''u2'', sample_conversation ''c1'' ''p1'' ''u1'' ''u2'']"
  let ?post = "sample_post ''p1'' ''u2'' Active"
  let ?effects1 = "[Request (Select_conversation (js ''p1'') (js ''u1'')),
           Request (Insert_conversation (js ''p1'') (js ''u1'') (js ''u2'')),
           Router_push (messages_route (js ''c1''))]"
  have uniq: "unique_post_buyer ?table"
    by code_simp
  have fresh: "\<not> list_ex (\<lambda>c. c_id c = js ''c1'') ?table"
    by code_simp
  have first: "handleMessageSeller (Some (js ''u1'')) (Some ?post) ?table [] (js ''c1'') = (?table1, ?effects1)"
    by code_simp
  obtain table2 effects2 where
    second: "handleMessageSeller (Some (js ''u1'')) (Some ?post) ?table1 [] (js ''c2'') = (table2, effects2)"
    by (cases "handleMessageSeller (Some (js ''u1'')) (Some ?post) ?table1 [] (js ''c2'')")
  from handleMessageSeller_twice [OF uniq fresh first second]
  obtain cid where "last ?effects1 = Router_push (messages_route cid)"
    and "effects2 = [Request (Select_conversation (p_id ?post) (js ''u1'')), Router_push (messages_route cid)]"
    by blast
  then have "effects2 = [Request (Select_conversation (p_id ?post) (js ''u1'')),
      Router_push (messages_route (js ''c1''))]"
    by simp
  with second uniq fresh first show ?thesis
    by simp
qed

section \<open>The chat screen and its subscription\<close>

text \<open>
  C2, as the callback has it.  The callback of the subscription appends the message of
  the event to the list without comparing identifiers: the list afterwards is the list
  before followed by the message, and holds one more copy of the message's identifier
  than before.
\<close>

theorem subscription_callback_appends:
  "messages (fst (subscription_callback uid newMsg st)) = messages st @ [newMsg]
   \<and> copies (m_id newMsg) (messages (fst (subscription_callback uid newMsg st)))
       = copies (m_id newMsg) (messages st) + 1
   \<and> (subscribed st \<longrightarrow>
        messages (chat_step st (Insert_event uid newMsg)) = messages st @ [newMsg])"
  by (simp add: subscription_callback_def copies_def)

text \<open>
  The sentence of C2 on a message that the history already holds: after the event the
  list holds it twice.
\<close>

theorem subscription_callback_duplicate_counterexample:
  "copies (js ''m1'')
     (messages (chat_run initial_chat_screen
        [Effect_runs (Some (js ''c1'')) (Some (js ''u1'')),
         History_response (Inr [sample_message ''m1'' ''c1'' ''u2'' False]),
         Insert_event (js ''u1'') (sample_message ''m1'' ''c1'' ''u2'' False)])) = 2"
  by code_simp

theorem subscription_callback_appends_witness:
  "subscribed (sample_chat [sample_message ''m1'' ''c1'' ''u2'' False] [] False)
   \<and> messages (chat_step (sample_chat [sample_message ''m1'' ''c1'' ''u2'' False] [] False)
        (Insert_event (js ''u1'') (sample_message ''m1'' ''c1'' ''u2'' False)))
      = [sample_message ''m1'' ''c1'' ''u2'' False, sample_message ''m1'' ''c1'' ''u2'' False]"
proof -
  have on: "subscribed (sample_chat [sample_message ''m1'' ''c1'' ''u2'' False] [] False)"
    by (simp add: sample_chat_def)
  have was: "messages (sample_chat [sample_message ''m1'' ''c1'' ''u2'' False] [] False)
      = [sample_message ''m1'' ''c1'' ''u2'' False]"
    by (simp add: sample_chat_def)
  from subscription_callback_appends [of "js ''u1''" "sample_message ''m1'' ''c1'' ''u2'' False"
      "sample_chat [sample_message ''m1'' ''c1'' ''u2'' False] [] False"] on was
  show ?thesis by simp
qed

text \<open>
  C4, as the effect has it.  With a conversation and a user, one run of the effect
  starts \<open>loadMessages\<close> without awaiting it and subscribes to the channel, so the
  subscription is open while the history is still pending and the list is as it was.
  An insert event that arrives before the history is appended to the list, the history
  still pending; the history, when it arrives without error, replaces the list.
\<close>

theorem chat_effect_subscribes_while_loading:
  assumes "cid \<noteq> []"
  shows "snd (chat_effect (Some cid) (Some uid) st) =
           [Request (Select_conversation_by_id cid), Request (Select_messages cid),
            Request (Update_messages_read cid uid), Request (Subscribe_messages cid)]
    \<and> subscribed (chat_step st (Effect_runs (Some cid) (Some uid)))
    \<and> history_pending (chat_step st (Effect_runs (Some cid) (Some uid)))
    \<and> messages (chat_step st (Effect_runs (Some cid) (Some uid))) = messages st
    \<and> messages (chat_run st [Effect_runs (Some cid) (Some uid), Insert_event uid newMsg])
        = messages st @ [newMsg]
    \<and> history_pending (chat_run st [Effect_runs (Some cid) (Some uid), Insert_event uid newMsg])
    \<and> messages (chat_run st [Effect_runs (Some cid) (Some uid), Insert_event uid newMsg,
                             History_response (Inr data)]) = data"
  using assms
  by (simp add: chat_run_def chat_effect_def subscription_callback_def loadMessages_response_def)

text \<open>
  The sentence of C4 on a fresh screen: after the effect has run the subscription is
  open and the history pending, and an insert event is merged into the list before the
  history has come.
\<close>

theorem chat_effect_order_counterexample:
  "subscribed (chat_run initial_chat_screen [Effect_runs (Some (js ''c1'')) (Some (js ''u1''))])
   \<and> history_pending (chat_run initial_chat_screen [Effect_runs (Some (js ''c1'')) (Some (js ''u1''))])
   \<and> loading (chat_run initial_chat_screen [Effect_runs (Some (js ''c1'')) (Some (js ''u1''))])
   \<and> history_pending (chat_run initial_chat_screen
        [Effect_runs (Some (js ''c1'')) (Some (js ''u1'')),
         Insert_event (js ''u1'') (sample_message ''m1'' ''c1'' ''u2'' False)])
   \<and> messages (chat_run initial_chat_screen
        [Effect_runs (Some (js ''c1'')) (Some (js ''u1'')),
         Insert_event (js ''u1'') (sample_message ''m1'' ''c1'' ''u2'' False)])
       = [sample_message ''m1'' ''c1'' ''u2'' False]"
proof -
  have "subscribed (chat_run initial_chat_screen [Effect_runs (Some (js ''c1'')) (Some (js ''u1''))])"
    by code_simp
  moreover have "history_pending (chat_run initial_chat_screen [Effect_runs (Some (js ''c1'')) (Some (js ''u1''))])"
    by code_simp
  moreover have "loading (chat_run initial_chat_screen [Effect_runs (Some (js ''c1'')) (Some (js ''u1''))])"
    by code_simp
  moreover have "history_pending (chat_run initial_chat_screen
        [Effect_runs (Some (js ''c1'')) (Some (js ''u1'')),
         Insert_event (js ''u1'') (sample_message ''m1'' ''c1'' ''u2'' False)])"
    by code_simp
  moreover have "messages (chat_run initial_chat_screen
        [Effect_runs (Some (js ''c1'')) (Some (js ''u1'')),
         Insert_event (js ''u1'') (sample_message ''m1'' ''c1'' ''u2'' False)])
       = [sample_message ''m1'' ''c1'' ''u2'' False]"
    by code_simp
  ultimately show ?thesis by blast
qed

theorem chat_effect_subscribes_while_loading_witness:
  "js ''c1'' \<noteq> []
   \<and> subscribed (chat_step initial_chat_screen (Effect_runs (Some (js ''c1'')) (Some (js ''u1''))))
   \<and> history_pending (chat_step initial_chat_screen (Effect_runs (Some (js ''c1'')) (Some (js ''u1''))))"
proof -
  have given: "js ''c1'' \<noteq> []"
    by (simp add: js_def)
  from chat_effect_subscribes_while_loading [OF given, of "js ''u1''" initial_chat_screen] given show ?thesis
    by blast
qed

section \<open>The life of a listing, proved\<close>

lemma status_of_append:
  "status_of ident (table @ [row]) =
     (case status_of ident table of
        Some s \<Rightarrow> Some s
      | None \<Rightarrow> if p_id row = ident then Some (p_status row) else None)"
  by (induction table) (auto simp: status_of_def find_post_def)

lemma status_of_update_sold:
  "status_of ident (update_sold target now table) =
     (case status_of ident table of
        None \<Rightarrow> None
      | Some s \<Rightarrow> if ident = target then Some Sold else Some s)"
  by (induction table) (auto simp: status_of_def find_post_def update_sold_def)

lemma status_of_delete:
  "status_of ident (filter (\<lambda>q. p_id q \<noteq> target) table) =
     (if ident = target then None else status_of ident table)"
  by (induction table) (auto simp: status_of_def find_post_def)

lemma status_of_edit:
  "status_of ident (edit_listing target edit fault table) = status_of ident table"
  by (induction table) (auto simp: status_of_def find_post_def edit_listing_def split: option.splits)

lemma status_of_absent:
  "status_of ident table = None \<longleftrightarrow> \<not> list_ex (\<lambda>p. p_id p = ident) table"
  by (induction table) (auto simp: status_of_def find_post_def)

lemma sold_step:
  assumes "status_of ident table = Some Sold"
  shows "status_of ident (listing_step to_number table op) = Some Sold
         \<or> status_of ident (listing_step to_number table op) = None"
proof (cases op)
  case (New_listing user form upload new_id)
  with assms show ?thesis
    by (auto simp: handleSubmit_new_listing_def insert_bazaar_post_def status_of_append
             split: option.splits sum.splits if_splits)
next
  case (Mark_as_sold post choice now now' fault)
  with assms show ?thesis
    by (auto simp: handleMarkAsSold_def status_of_update_sold
             split: option.splits dialog_choice.splits)
next
  case (Delete_listing post choice fault)
  with assms show ?thesis
    by (auto simp: handleDelete_def status_of_delete
             split: option.splits dialog_choice.splits)
next
  case (Edit_listing target edit fault)
  with assms show ?thesis
    by (simp add: status_of_edit)
qed

lemma sold_run:
  "status_of ident table = Some Sold \<Longrightarrow>
     status_of ident (listing_run to_number table ops) = Some Sold
     \<or> (\<exists>k\<le>length ops. status_of ident (listing_run to_number table (take k ops)) = None)"
proof (induction ops arbitrary: table)
  case Nil
  then show ?case by (simp add: listing_run_def)
next
  case (Cons op ops)
  from sold_step [OF Cons.prems, of to_number op]
  show ?case
  proof
    assume still: "status_of ident (listing_step to_number table op) = Some Sold"
    from Cons.IH [OF still]
    show ?thesis
    proof
      assume "status_of ident (listing_run to_number (listing_step to_number table op) ops) = Some Sold"
      then show ?thesis by (simp add: listing_run_def)
    next
      assume "\<exists>k\<le>length ops.
        status_of ident (listing_run to_number (listing_step to_number table op) (take k ops)) = None"
      then obtain k where "k \<le> length ops"
        and "status_of ident (listing_run to_number (listing_step to_number table op) (take k ops)) = None"
        by blast
      then have "Suc k \<le> length (op # ops)
          \<and> status_of ident (listing_run to_number table (take (Suc k) (op # ops))) = None"
        by (simp add: listing_run_def)
      then show ?thesis by blast
    qed
  next
    assume gone: "status_of ident (listing_step to_number table op) = None"
    then have "Suc 0 \<le> length (op # ops)
        \<and> status_of ident (listing_run to_number table (take (Suc 0) (op # ops))) = None"
      by (simp add: listing_run_def)
    then show ?thesis by blast
  qed
qed

lemma new_listing_rows:
  "row \<in> set (fst (handleSubmit_new_listing to_number user form upload new_id table)) \<Longrightarrow>
     row \<in> set table \<or> (p_id row = new_id \<and> p_status row = Active \<and> p_sold_at row = None)"
  by (auto simp: handleSubmit_new_listing_def insert_bazaar_post_def
           split: option.splits sum.splits if_splits)

lemma new_listing_created:
  assumes "validate to_number form" and "\<not> list_ex (\<lambda>p. p_id p = new_id) table"
  shows "snd (handleSubmit_new_listing to_number (Some uid) form (Inr photoUrl) new_id table) = [Router_back]
     \<and> status_of new_id (fst (handleSubmit_new_listing to_number (Some uid) form (Inr photoUrl) new_id table))
         = Some Active"
proof -
  from assms(2) have "status_of new_id table = None"
    by (simp add: status_of_absent)
  with assms show ?thesis
    by (simp add: handleSubmit_new_listing_def insert_bazaar_post_def status_of_append)
qed

lemma mark_as_sold_rows:
  "row \<in> set (fst (handleMarkAsSold (Some p) Confirm now now' None table)) \<Longrightarrow> p_id row = p_id p \<Longrightarrow>
     p_status row = Sold \<and> p_sold_at row = Some now"
  by (auto simp: handleMarkAsSold_def update_sold_def split: if_splits)

lemma mark_as_sold_status:
  "status_of (p_id p) table = Some s \<Longrightarrow>
     status_of (p_id p) (fst (handleMarkAsSold (Some p) Confirm now now' None table)) = Some Sold"
  by (simp add: handleMarkAsSold_def status_of_update_sold)

text \<open>
  C8.  The new-listing form sends no \<open>status\<close>, and the row it creates is active with no
  sold timestamp.  Marking as sold, once confirmed and carried out, leaves every row of
  that identifier sold with the timestamp sent, so an active listing becomes a sold one.
  No operation of the screens on the table (creating, marking as sold, deleting, and
  editing as the spec has it) makes a sold listing active: through any sequence of them
  a sold listing stays sold for as long as it exists.
\<close>

theorem listing_status_lifecycle:
  "(validate to_number form \<and> \<not> list_ex (\<lambda>p. p_id p = new_id) table \<longrightarrow>
      snd (handleSubmit_new_listing to_number (Some uid) form (Inr photoUrl) new_id table) = [Router_back]
      \<and> status_of new_id
           (fst (handleSubmit_new_listing to_number (Some uid) form (Inr photoUrl) new_id table))
          = Some Active)
   \<and> (\<forall>row \<in> set (fst (handleSubmit_new_listing to_number user form upload new_id table)).
        row \<in> set table \<or> (p_id row = new_id \<and> p_status row = Active \<and> p_sold_at row = None))
   \<and> (\<forall>row \<in> set (fst (handleMarkAsSold (Some p) Confirm now now' None table)).
        p_id row = p_id p \<longrightarrow> p_status row = Sold \<and> p_sold_at row = Some now)
   \<and> (status_of (p_id p) table = Some Active \<longrightarrow>
        status_of (p_id p) (fst (handleMarkAsSold (Some p) Confirm now now' None table)) = Some Sold)
   \<and> (status_of ident table = Some Sold \<longrightarrow>
        status_of ident (listing_step to_number table op) \<noteq> Some Active)
   \<and> (status_of ident table = Some Sold \<longrightarrow>
        status_of ident (listing_run to_number table ops) = Some Sold
        \<or> (\<exists>k\<le>length ops. status_of ident (listing_run to_number table (take k ops)) = None))"
proof -
  have "status_of ident table = Some Sold \<longrightarrow>
        status_of ident (listing_step to_number table op) \<noteq> Some Active"
    using sold_step [of ident table to_number op] by auto
  then show ?thesis
    using new_listing_created [of to_number form new_id table uid photoUrl]
      new_listing_rows [of _ to_number user form upload new_id table]
      mark_as_sold_rows [of _ p now now' table]
      mark_as_sold_status [of p table Active now now']
      sold_run [of ident table to_number ops]
    by blast
qed


theorem listing_status_lifecycle_witness:
  "validate sample_to_number sample_form
   \<and> \<not> list_ex (\<lambda>p. p_id p = js ''p1'') []
   \<and> status_of (js ''p1'')
        (fst (handleSubmit_new_listing sample_to_number (Some (js ''u1'')) sample_form
                (Inr sample_photo_url) (js ''p1'') [])) = Some Active
   \<and> status_of (p_id (sample_post ''p1'' ''u1'' Active)) [sample_post ''p1'' ''u1'' Active] = Some Active
   \<and> status_of (p_id (sample_post ''p1'' ''u1'' Active))
        (fst (handleMarkAsSold (Some (sample_post ''p1'' ''u1'' Active)) Confirm
                (js ''2025-01-02T00:00:00.000Z'') (js ''2025-01-02T00:00:00.001Z'') None
                [sample_post ''p1'' ''u1'' Active])) = Some Sold
   \<and> status_of (js ''p1'') [sample_post ''p1'' ''u1'' Sold] = Some Sold
   \<and> status_of (js ''p1'')
        (listing_step sample_to_number [sample_post ''p1'' ''u1'' Sold]
           (New_listing (Some (js ''u1'')) sample_form (Inr sample_photo_url) (js ''p1'')))
       \<noteq> Some Active
   \<and> status_of (js ''p1'')
        (listing_step sample_to_number [sample_post ''p1'' ''u1'' Sold]
           (Edit_listing (js ''p1'') sample_edit None))
       \<noteq> Some Active"
proof -
  have valid: "validate sample_to_number sample_form"
    by code_simp
  have fresh: "\<not> list_ex (\<lambda>p. p_id p = js ''p1'') []"
    by simp
  have active: "status_of (p_id (sample_post ''p1'' ''u1'' Active)) [sample_post ''p1'' ''u1'' Active]
      = Some Active"
    by code_simp
  have sold: "status_of (js ''p1'') [sample_post ''p1'' ''u1'' Sold] = Some Sold"
    by code_simp
  note created = listing_status_lifecycle [where to_number = sample_to_number and form = sample_form
      and new_id = "js ''p1''" and table = "[]" and uid = "js ''u1''" and photoUrl = sample_photo_url]
  note marked = listing_status_lifecycle [where p = "sample_post ''p1'' ''u1'' Active"
      and table = "[sample_post ''p1'' ''u1'' Active]"
      and now = "js ''2025-01-02T00:00:00.000Z''" and now' = "js ''2025-01-02T00:00:00.001Z''"]
  note kept = listing_status_lifecycle [where ident = "js ''p1''" and table = "[sample_post ''p1'' ''u1'' Sold]"
      and to_number = sample_to_number
      and op = "New_listing (Some (js ''u1'')) sample_form (Inr sample_photo_url) (js ''p1'')"]
  note edited = listing_status_lifecycle [where ident = "js ''p1''"
      and table = "[sample_post ''p1'' ''u1'' Sold]" and to_number = sample_to_number
      and op = "Edit_listing (js ''p1'') sample_edit None"]
  from created valid fresh
  have "status_of (js ''p1'')
        (fst (handleSubmit_new_listing sample_to_number (Some (js ''u1'')) sample_form
                (Inr sample_photo_url) (js ''p1'') [])) = Some Active"
    by blast
  moreover from marked active
  have "status_of (p_id (sample_post ''p1'' ''u1'' Active))
        (fst (handleMarkAsSold (Some (sample_post ''p1'' ''u1'' Active)) Confirm
                (js ''2025-01-02T00:00:00.000Z'') (js ''2025-01-02T00:00:00.001Z'') None
                [sample_post ''p1'' ''u1'' Active])) = Some Sold"
    by blast
  moreover from kept sold
  have "status_of (js ''p1'')
        (listing_step sample_to_number [sample_post ''p1'' ''u1'' Sold]
           (New_listing (Some (js ''u1'')) sample_form (Inr sample_photo_url) (js ''p1'')))
       \<noteq> Some Active"
    by blast
  moreover from edited sold
  have "status_of (js ''p1'')
        (listing_step sample_to_number [sample_post ''p1'' ''u1'' Sold]
           (Edit_listing (js ''p1'') sample_edit None))
       \<noteq> Some Active"
    by blast
  ultimately show ?thesis using valid fresh active sold by blast
qed

text \<open>
  A price field that reads \<open>Infinity\<close> passes the form's check and is stored as a null
  price; the listing is active all the same.  An edit of a sold listing changes its
  content and leaves it sold.
\<close>

lemma new_listing_infinite_price:
  "handleSubmit_new_listing sample_to_number (Some (js ''u1''))
     (sample_form\<lparr>f_price := js ''Infinity''\<rparr>) (Inr sample_photo_url) (js ''p1'') []
   = ([\<lparr>p_id = js ''p1'', p_user_id = js ''u1'', p_title = js ''Lamp'', p_description = None,
        p_price = None, p_currency = Some (js ''CAD''), p_city = Some (js ''Ottawa''),
        p_contact = Some (js ''a@b.c''), p_photo_url = Some sample_photo_url,
        p_status = Active, p_sold_at = None\<rparr>],
      [Router_back])"
  by code_simp

lemma edit_sold_listing:
  "edit_listing (js ''p1'') sample_edit None [sample_post ''p1'' ''u1'' Sold]
   = [(sample_post ''p1'' ''u1'' Sold)\<lparr>p_title := js ''Desk lamp'', p_price := Some 20\<rparr>]"
  by code_simp

section \<open>Rating a seller twice\<close>

lemma no_update_policy: "\<not> permitted seller_ratings_policies Update uid row"
  by (simp add: permitted_def seller_ratings_policies_def)

lemma upsert_existing_denied:
  assumes "find (conflicts payload) (seller_ratings db) = Some existing"
  shows "\<exists>error. upsert_seller_rating seller_ratings_policies uid new_id payload db = Inl error"
  using assms by (simp add: upsert_seller_rating_def no_update_policy)

lemma upsert_first_rating:
  "upsert_seller_rating seller_ratings_policies (js ''u1'') (js ''r1'') sample_rating_payload
     \<lparr>seller_ratings = [],
      profiles = [\<lparr>pr_id = js ''u2'', pr_seller_rating = 0, pr_seller_rating_count = 0\<rparr>]\<rparr>
   = Inr \<lparr>seller_ratings =
            [\<lparr>r_id = js ''r1'', r_seller_id = js ''u2'', r_buyer_id = js ''u1'',
              r_post_id = Some (js ''p1''), r_rating = 5, r_review_text = None\<rparr>],
          profiles = [\<lparr>pr_id = js ''u2'', pr_seller_rating = 5, pr_seller_rating_count = 1\<rparr>]\<rparr>"
  by code_simp

lemma upsert_with_update_policy:
  "upsert_seller_rating (buyers_can_update # seller_ratings_policies) (js ''u1'') (js ''r2'')
     sample_rating_payload sample_rating_db
   = Inr \<lparr>seller_ratings =
            [\<lparr>r_id = js ''r1'', r_seller_id = js ''u2'', r_buyer_id = js ''u1'',
              r_post_id = Some (js ''p1''), r_rating = 5, r_review_text = None\<rparr>],
          profiles = [\<lparr>pr_id = js ''u2'', pr_seller_rating = 5, pr_seller_rating_count = 1\<rparr>]\<rparr>"
  by code_simp

text \<open>
  C7 on the schema as declared.  A buyer whose rating of 3 for a post is stored submits 5
  with no review text.  The upsert meets the stored row and takes the update path, for
  which \<open>seller_ratings\<close> declares no policy: the backend refuses, the screen raises
  \<open>Failed to submit rating. Please try again.\<close>, and the row and the seller's aggregate
  are as they were.
\<close>

theorem handleSubmit_rating_existing_refused:
  "handleSubmit_rating (Some (js ''u1'')) (Some (sample_post ''p1'' ''u2'' Sold)) (js ''p1'') 5 []
     (Some 3) (js ''r2'') sample_rating_db
   = (sample_rating_db, [rating_failed])"
  by code_simp

end
